theory Spec2Isabelle
  imports
    Complex_Main
    "HOL-Library.Char_ord"
    "HOL-Library.List_Lexorder"
    "HOL-Library.Monad_Syntax"
    "HOL-Library.Option_ord"
begin

section \<open>Values shared by the models and the store\<close>

text \<open>
  Amounts are Python floats (SQLite \<open>REAL\<close>). They are modelled as exact reals: the
  development is about which deltas the code applies and which rows it sums, not about
  rounding. Text columns are \<open>string\<close>s compared byte by byte (SQLite's \<open>BINARY\<close>
  collation and Python's \<open>str\<close> comparison agree on them), a nullable column is an
  \<open>option\<close>.
\<close>

text \<open>\<open>datetime\<close> of the Python standard library: a calendar date and a time of day.\<close>

record datetime =
  dt_year :: nat
  dt_month :: nat
  dt_day :: nat
  dt_hour :: nat
  dt_minute :: nat
  dt_second :: nat
  dt_microsecond :: nat

text \<open>
  The exceptions that the modelled code can raise. \<open>IllTyped\<close> is not one of them: it
  marks a dictionary value whose type the attribute it is read into does not have, which
  Python would store as it is and the typed records below cannot hold.
\<close>

datatype py_error = ValueError | OverflowError | TypeError | IllTyped

text \<open>
  The \<open>date\<close> attribute of a \<open>Transaction\<close> holds a \<open>datetime\<close> or a string: the code
  tests \<open>isinstance(self.date, datetime)\<close> wherever it reads it.
\<close>

datatype date_field = DateTime datetime | DateStr string

subsection \<open>The calendar\<close>

definition is_leap :: "nat \<Rightarrow> bool" where
  "is_leap y = (y mod 4 = 0 \<and> (y mod 100 \<noteq> 0 \<or> y mod 400 = 0))"

definition days_in_month :: "nat \<Rightarrow> nat \<Rightarrow> nat" where
  "days_in_month y m =
     (if m = 2 then (if is_leap y then 29 else 28)
      else if m = 4 \<or> m = 6 \<or> m = 9 \<or> m = 11 then 30 else 31)"

text \<open>A day that the calendar has, and a time of day of 00:00:00.\<close>

definition date_ok :: "datetime \<Rightarrow> bool" where
  "date_ok d = (1 \<le> dt_month d \<and> dt_month d \<le> 12 \<and> 1 \<le> dt_day d
                \<and> dt_day d \<le> days_in_month (dt_year d) (dt_month d))"


text \<open>The day after and the day before; the time of day is kept.\<close>

definition next_day :: "datetime \<Rightarrow> datetime" where
  "next_day d =
     (if dt_day d < days_in_month (dt_year d) (dt_month d) then d\<lparr>dt_day := dt_day d + 1\<rparr>
      else if dt_month d < 12 then d\<lparr>dt_month := dt_month d + 1, dt_day := 1\<rparr>
      else d\<lparr>dt_year := dt_year d + 1, dt_month := 1, dt_day := 1\<rparr>)"

definition prev_day :: "datetime \<Rightarrow> datetime" where
  "prev_day d =
     (if 1 < dt_day d then d\<lparr>dt_day := dt_day d - 1\<rparr>
      else if 1 < dt_month d
        then d\<lparr>dt_month := dt_month d - 1, dt_day := days_in_month (dt_year d) (dt_month d - 1)\<rparr>
      else d\<lparr>dt_year := dt_year d - 1, dt_month := 12, dt_day := 31\<rparr>)"

text \<open>
  \<open>date + timedelta(days=k)\<close>: the date \<open>k\<close> days later (earlier for a negative \<open>k\<close>).
  The library raises \<open>OverflowError\<close> when the result leaves the years 1 to 9999, and
  also when \<open>k\<close> itself is beyond the 999999999 days a \<open>timedelta\<close> can hold, which
  always leaves that range.
\<close>

definition shift_days :: "datetime \<Rightarrow> int \<Rightarrow> datetime" where
  "shift_days d k = (if 0 \<le> k then (next_day ^^ nat k) d else (prev_day ^^ nat (- k)) d)"

definition add_timedelta_days :: "datetime \<Rightarrow> int \<Rightarrow> py_error + datetime" where
  "add_timedelta_days d k =
     (let r = shift_days d k
      in if 1 \<le> dt_year r \<and> dt_year r \<le> 9999 then Inr r else Inl OverflowError)"

subsection \<open>Formatting and parsing dates\<close>

definition digit_char :: "nat \<Rightarrow> char" where
  "digit_char n = ''0123456789'' ! (n mod 10)"

definition is_digit :: "char \<Rightarrow> bool" where
  "is_digit c = (48 \<le> (of_char c :: nat) \<and> (of_char c :: nat) \<le> 57)"

definition digit_val :: "char \<Rightarrow> nat" where
  "digit_val c = of_char c - 48"

definition two_digits :: "nat \<Rightarrow> string" where
  "two_digits n = [digit_char (n div 10), digit_char n]"

definition four_digits :: "nat \<Rightarrow> string" where
  "four_digits n =
     [digit_char (n div 1000), digit_char (n div 100), digit_char (n div 10), digit_char n]"

text \<open>\<open>d.strftime("%Y-%m-%d")\<close>, the year written with four digits as the library documents.\<close>

definition strftime_ymd :: "datetime \<Rightarrow> string" where
  "strftime_ymd d =
     four_digits (dt_year d) @ ''-'' @ two_digits (dt_month d) @ ''-'' @ two_digits (dt_day d)"

text \<open>\<open>d.strftime("%H:%M")\<close>.\<close>

definition strftime_hm :: "datetime \<Rightarrow> string" where
  "strftime_hm d = two_digits (dt_hour d) @ '':'' @ two_digits (dt_minute d)"

text \<open>
  \<open>datetime.strptime(s, "%Y-%m-%d")\<close> on ASCII input. The library turns the format into
  the regular expression \<open>(\d\d\d\d)-(1[0-2]|0[1-9]|[1-9])-(3[01]|[12]\d|0[1-9]|[1-9]| [1-9])\<close>,
  takes the first alternative that matches, raises \<open>ValueError\<close> when the string does not
  match or when text remains after the match, and builds a \<open>datetime\<close> at midnight, which
  raises \<open>ValueError\<close> for the year 0 and for a day that the month does not have.
\<close>

definition in_range :: "char \<Rightarrow> nat \<Rightarrow> nat \<Rightarrow> bool" where
  "in_range c lo hi = (is_digit c \<and> lo \<le> digit_val c \<and> digit_val c \<le> hi)"

fun parse_month :: "string \<Rightarrow> (nat \<times> string) option" where
  "parse_month (a # b # rest) =
     (if a = CHR ''1'' \<and> in_range b 0 2 then Some (10 + digit_val b, rest)
      else if a = CHR ''0'' \<and> in_range b 1 9 then Some (digit_val b, rest)
      else if in_range a 1 9 then Some (digit_val a, b # rest)
      else None)"
| "parse_month [a] = (if in_range a 1 9 then Some (digit_val a, []) else None)"
| "parse_month [] = None"

fun parse_day :: "string \<Rightarrow> (nat \<times> string) option" where
  "parse_day (a # b # rest) =
     (if a = CHR ''3'' \<and> in_range b 0 1 then Some (30 + digit_val b, rest)
      else if in_range a 1 2 \<and> is_digit b then Some (10 * digit_val a + digit_val b, rest)
      else if a = CHR ''0'' \<and> in_range b 1 9 then Some (digit_val b, rest)
      else if in_range a 1 9 then Some (digit_val a, b # rest)
      else if a = CHR '' '' \<and> in_range b 1 9 then Some (digit_val b, rest)
      else None)"
| "parse_day [a] = (if in_range a 1 9 then Some (digit_val a, []) else None)"
| "parse_day [] = None"

definition midnight :: "nat \<Rightarrow> nat \<Rightarrow> nat \<Rightarrow> datetime" where
  "midnight y m d =
     \<lparr>dt_year = y, dt_month = m, dt_day = d,
      dt_hour = 0, dt_minute = 0, dt_second = 0, dt_microsecond = 0\<rparr>"

fun strptime_ymd :: "string \<Rightarrow> py_error + datetime" where
  "strptime_ymd (y1 # y2 # y3 # y4 # dash1 # rest) =
     (if is_digit y1 \<and> is_digit y2 \<and> is_digit y3 \<and> is_digit y4 \<and> dash1 = CHR ''-'' then
        (case parse_month rest of
           None \<Rightarrow> Inl ValueError
         | Some (m, rest1) \<Rightarrow>
             (case rest1 of
                [] \<Rightarrow> Inl ValueError
              | dash2 # rest2 \<Rightarrow>
                  if dash2 = CHR ''-'' then
                    (case parse_day rest2 of
                       None \<Rightarrow> Inl ValueError
                     | Some (d, rest3) \<Rightarrow>
                         (let y = 1000 * digit_val y1 + 100 * digit_val y2
                                    + 10 * digit_val y3 + digit_val y4
                          in if rest3 = [] \<and> 1 \<le> y \<and> d \<le> days_in_month y m
                             then Inr (midnight y m d) else Inl ValueError))
                  else Inl ValueError))
      else Inl ValueError)"
| "strptime_ymd _ = Inl ValueError"


section \<open>The entity model\<close>

text \<open>
  One record per class of \<open>models/\<close>, one field per attribute, named as in the source
  behind a prefix for the class. A \<open>Transaction\<close> is also what a row of the
  \<open>transactions\<close> table holds, with the date as the text that \<open>add_transaction\<close>
  binds for it, so the record takes the type of the date as a parameter. A row of any
  table carries the key that the table assigned in its \<open>id\<close> field.
\<close>

record 'd transaction =
  t_id :: "int option"
  t_transaction_type :: string
  t_amount :: real
  t_category_id :: "int option"
  t_subcategory_id :: "int option"
  t_account_id :: "int option"
  t_to_account_id :: "int option"
  t_date :: 'd
  t_time :: string
  t_description :: string
  t_payment_method :: string
  t_tags :: string
  t_receipt_path :: "string option"
  t_recurring_id :: "int option"

record account =
  a_id :: "int option"
  a_name :: string
  a_account_type :: string
  a_initial_balance :: real
  a_current_balance :: real
  a_currency :: string
  a_icon :: string
  a_color :: string
  a_is_credit_card :: bool
  a_credit_limit :: real
  a_due_date :: "string option"
  a_interest_rate :: real
  a_notes :: string

record category =
  c_id :: "int option"
  c_name :: string
  c_category_type :: string
  c_icon :: string
  c_color :: string


record budget =
  b_id :: "int option"
  b_category_id :: "int option"
  b_amount :: real
  b_period :: string
  b_start_date :: "string option"
  b_end_date :: "string option"
  b_alert_percentage :: real
  b_spent :: real



record recurring_transaction =
  r_id :: "int option"
  r_transaction_type :: string
  r_amount :: real
  r_category_id :: "int option"
  r_subcategory_id :: "int option"
  r_account_id :: "int option"
  r_description :: string
  r_frequency :: string
  r_custom_interval :: int
  r_start_date :: "string option"
  r_end_date :: "string option"
  r_next_due_date :: "string option"
  r_auto_create :: bool
  r_active :: bool

text \<open>
  \<open>Transaction.__init__\<close>. The first argument is the clock (\<open>datetime.now()\<close>), the others
  are the keyword arguments in the order of the source. \<open>date or datetime.now()\<close> and
  \<open>time or ...\<close> replace a missing or empty value.
\<close>

definition Transaction_init ::
  "datetime \<Rightarrow> int option \<Rightarrow> string \<Rightarrow> real \<Rightarrow> int option \<Rightarrow> int option \<Rightarrow> int option \<Rightarrow>
   int option \<Rightarrow> date_field option \<Rightarrow> string option \<Rightarrow> string \<Rightarrow> string \<Rightarrow> string \<Rightarrow>
   string option \<Rightarrow> int option \<Rightarrow> date_field transaction" where
  "Transaction_init now transaction_id transaction_type amount category_id subcategory_id account_id
     to_account_id date time description payment_method tags receipt_path recurring_id =
     \<lparr>t_id = transaction_id,
      t_transaction_type = transaction_type,
      t_amount = amount,
      t_category_id = category_id,
      t_subcategory_id = subcategory_id,
      t_account_id = account_id,
      t_to_account_id = to_account_id,
      t_date = (case date of None \<Rightarrow> DateTime now
                | Some (DateStr s) \<Rightarrow> if s = [] then DateTime now else DateStr s
                | Some (DateTime d) \<Rightarrow> DateTime d),
      t_time = (case time of None \<Rightarrow> strftime_hm now
                | Some s \<Rightarrow> if s = [] then strftime_hm now else s),
      t_description = description,
      t_payment_method = payment_method,
      t_tags = tags,
      t_receipt_path = receipt_path,
      t_recurring_id = recurring_id\<rparr>"

section \<open>Entities to and from dictionaries\<close>

text \<open>
  The values that the dictionaries of \<open>to_dict\<close> and \<open>from_dict\<close> hold, and a dictionary
  as the list of its items in the order of the source. \<open>dict_get\<close> is \<open>data.get(key,
  default)\<close>.
\<close>

datatype pyval =
  PyNone | PyInt int | PyFloat real | PyStr string | PyBool bool | PyDateTime datetime



text \<open>An optional attribute as a dictionary value.\<close>

definition py_int_opt :: "int option \<Rightarrow> pyval" where
  "py_int_opt x = (case x of None \<Rightarrow> PyNone | Some i \<Rightarrow> PyInt i)"

definition py_str_opt :: "string option \<Rightarrow> pyval" where
  "py_str_opt x = (case x of None \<Rightarrow> PyNone | Some s \<Rightarrow> PyStr s)"

text \<open>
  A dictionary value read at the type of the attribute that takes it; \<open>None\<close> when the
  value has another type.
\<close>

definition as_int_opt :: "pyval \<Rightarrow> int option option" where
  "as_int_opt v = (case v of PyNone \<Rightarrow> Some None | PyInt i \<Rightarrow> Some (Some i) | _ \<Rightarrow> None)"

definition as_str_opt :: "pyval \<Rightarrow> string option option" where
  "as_str_opt v = (case v of PyNone \<Rightarrow> Some None | PyStr s \<Rightarrow> Some (Some s) | _ \<Rightarrow> None)"

definition as_int :: "pyval \<Rightarrow> int option" where
  "as_int v = (case v of PyInt i \<Rightarrow> Some i | _ \<Rightarrow> None)"

definition as_float :: "pyval \<Rightarrow> real option" where
  "as_float v = (case v of PyFloat x \<Rightarrow> Some x | _ \<Rightarrow> None)"

definition as_str :: "pyval \<Rightarrow> string option" where
  "as_str v = (case v of PyStr s \<Rightarrow> Some s | _ \<Rightarrow> None)"

definition as_bool :: "pyval \<Rightarrow> bool option" where
  "as_bool v = (case v of PyBool b \<Rightarrow> Some b | _ \<Rightarrow> None)"

definition as_date_opt :: "pyval \<Rightarrow> date_field option option" where
  "as_date_opt v =
     (case v of PyNone \<Rightarrow> Some None | PyDateTime d \<Rightarrow> Some (Some (DateTime d))
      | PyStr s \<Rightarrow> Some (Some (DateStr s)) | _ \<Rightarrow> None)"
























section \<open>The persistence store\<close>

text \<open>
  The tables that the modelled operations read or write, each a list of rows in insertion
  order. \<open>transactions_seq\<close> is the largest key the \<open>transactions\<close> table has handed
  out (\<open>AUTOINCREMENT\<close> never reuses one).
\<close>

record database =
  transactions :: "string transaction list"
  transactions_seq :: int
  accounts :: "account list"
  categories :: "category list"
  budgets :: "budget list"
  recurring_transactions :: "recurring_transaction list"

text \<open>SQL's \<open>column = ?\<close>: a \<open>NULL\<close> on either side matches nothing.\<close>

definition sql_eq :: "int option \<Rightarrow> int option \<Rightarrow> bool" where
  "sql_eq column param = (column \<noteq> None \<and> column = param)"



text \<open>Python's truth value of an optional integer: \<open>None\<close> and \<open>0\<close> are false.\<close>

definition truthy :: "int option \<Rightarrow> bool" where
  "truthy x = (case x of None \<Rightarrow> False | Some i \<Rightarrow> i \<noteq> 0)"


definition update_account_balance :: "database \<Rightarrow> int option \<Rightarrow> real \<Rightarrow> database" where
  "update_account_balance db account_id amount =
     db\<lparr>accounts :=
          map (\<lambda>a. if sql_eq (a_id a) account_id
                    then a\<lparr>a_current_balance := a_current_balance a + amount\<rparr> else a)
              (accounts db)\<rparr>"

definition get_transaction_by_id :: "database \<Rightarrow> int option \<Rightarrow> string transaction option" where
  "get_transaction_by_id db transaction_id =
     find (\<lambda>row. sql_eq (t_id row) transaction_id) (transactions db)"

text \<open>The text bound for the \<open>date\<close> column by \<open>add_transaction\<close> and \<open>update_transaction\<close>.\<close>

definition date_column :: "date_field \<Rightarrow> string" where
  "date_column d = (case d of DateTime dt \<Rightarrow> strftime_ymd dt | DateStr s \<Rightarrow> s)"

text \<open>The key of the next inserted row: one more than the largest the table has seen.\<close>

definition lastrowid :: "database \<Rightarrow> int" where
  "lastrowid db =
     fold (\<lambda>row m. case t_id row of None \<Rightarrow> m | Some i \<Rightarrow> max i m)
          (transactions db) (transactions_seq db) + 1"

definition add_transaction :: "database \<Rightarrow> date_field transaction \<Rightarrow> database \<times> int" where
  "add_transaction db transaction =
     (let transaction_id = lastrowid db;
          row = \<lparr>t_id = Some transaction_id,
                 t_transaction_type = t_transaction_type transaction,
                 t_amount = t_amount transaction,
                 t_category_id = t_category_id transaction,
                 t_subcategory_id = t_subcategory_id transaction,
                 t_account_id = t_account_id transaction,
                 t_to_account_id = t_to_account_id transaction,
                 t_date = date_column (t_date transaction),
                 t_time = t_time transaction,
                 t_description = t_description transaction,
                 t_payment_method = t_payment_method transaction,
                 t_tags = t_tags transaction,
                 t_receipt_path = t_receipt_path transaction,
                 t_recurring_id = t_recurring_id transaction\<rparr>;
          db1 = db\<lparr>transactions := transactions db @ [row],
                   transactions_seq := transaction_id\<rparr>;
          db2 =
            (if t_transaction_type transaction = ''Expense'' \<and> truthy (t_account_id transaction)
               then update_account_balance db1 (t_account_id transaction) (- t_amount transaction)
             else if t_transaction_type transaction = ''Income''
                     \<and> truthy (t_account_id transaction)
               then update_account_balance db1 (t_account_id transaction) (t_amount transaction)
             else if t_transaction_type transaction = ''Transfer''
               then (let db1a = (if truthy (t_account_id transaction)
                                 then update_account_balance db1 (t_account_id transaction)
                                        (- t_amount transaction)
                                 else db1)
                     in if truthy (t_to_account_id transaction)
                        then update_account_balance db1a (t_to_account_id transaction)
                               (t_amount transaction)
                        else db1a)
             else db1)
      in (db2, transaction_id))"



definition delete_transaction :: "database \<Rightarrow> int option \<Rightarrow> database" where
  "delete_transaction db transaction_id =
     (let trans = get_transaction_by_id db transaction_id;
          db1 =
            (case trans of
               None \<Rightarrow> db
             | Some old \<Rightarrow>
                 if t_transaction_type old = ''Expense'' \<and> truthy (t_account_id old)
                   then update_account_balance db (t_account_id old) (t_amount old)
                 else if t_transaction_type old = ''Income'' \<and> truthy (t_account_id old)
                   then update_account_balance db (t_account_id old) (- t_amount old)
                 else db)
      in db1\<lparr>transactions :=
               filter (\<lambda>row. \<not> sql_eq (t_id row) transaction_id) (transactions db1)\<rparr>)"





section \<open>The recurrence engine and the reminders\<close>

text \<open>
  \<open>get_recurring_transactions\<close>: the active patterns by \<open>next_due_date\<close>, \<open>NULL\<close> first,
  patterns with equal dates in insertion order. The joined \<open>category_name\<close> is read by
  none of the modelled functions and is left out.
\<close>

definition get_recurring_transactions :: "database \<Rightarrow> recurring_transaction list" where
  "get_recurring_transactions db =
     sort_key r_next_due_date (filter r_active (recurring_transactions db))"

text \<open>The loop of \<open>check_recurring_transactions\<close>, with \<open>due_transactions\<close> as accumulator.\<close>

fun check_recurring_loop ::
  "string \<Rightarrow> recurring_transaction list \<Rightarrow> recurring_transaction list
   \<Rightarrow> recurring_transaction list" where
  "check_recurring_loop today [] due_transactions = due_transactions"
| "check_recurring_loop today (tr # rest) due_transactions =
     (if (case r_next_due_date tr of None \<Rightarrow> False | Some s \<Rightarrow> s \<noteq> [] \<and> s \<le> today)
      then (if r_active tr \<and> r_auto_create tr
            then check_recurring_loop today rest (due_transactions @ [tr])
            else check_recurring_loop today rest due_transactions)
      else check_recurring_loop today rest due_transactions)"

definition check_recurring_transactions :: "database \<Rightarrow> datetime \<Rightarrow> recurring_transaction list" where
  "check_recurring_transactions db now =
     (let today = strftime_ymd now;
          recurring = get_recurring_transactions db
      in check_recurring_loop today recurring [])"

definition calculate_next_due_date :: "string \<Rightarrow> string \<Rightarrow> int \<Rightarrow> py_error + string" where
  "calculate_next_due_date current_date frequency interval =
     (case strptime_ymd current_date of
        Inl e \<Rightarrow> Inl e
      | Inr date \<Rightarrow>
          (case (if frequency = ''Daily'' then add_timedelta_days date interval
                 else if frequency = ''Weekly'' then add_timedelta_days date (7 * interval)
                 else if frequency = ''Monthly'' then add_timedelta_days date (30 * interval)
                 else if frequency = ''Yearly'' then add_timedelta_days date (365 * interval)
                 else add_timedelta_days date interval) of
             Inl e \<Rightarrow> Inl e
           | Inr next_date \<Rightarrow> Inr (strftime_ymd next_date)))"

text \<open>
  The loop of \<open>create_recurring_transaction_instances\<close> over the due patterns. Every
  \<open>add_transaction\<close> commits, so an exception leaves the store as the loop had made it;
  the result is the store together with the exception or the count.
\<close>

fun create_instances_loop ::
  "datetime \<Rightarrow> recurring_transaction list \<Rightarrow> database \<Rightarrow> nat \<Rightarrow> database \<times> (py_error + nat)" where
  "create_instances_loop now [] db created_count = (db, Inr created_count)"
| "create_instances_loop now (recurring # rest) db created_count =
     (let transaction =
            Transaction_init now None (r_transaction_type recurring) (r_amount recurring)
              (r_category_id recurring) (r_subcategory_id recurring) (r_account_id recurring)
              None (Some (DateTime now)) None (r_description recurring) [] [] None
              (r_id recurring);
          db1 = fst (add_transaction db transaction)
      in case (case r_next_due_date recurring of
                 None \<Rightarrow> Inl TypeError
               | Some current_date \<Rightarrow>
                   calculate_next_due_date current_date (r_frequency recurring)
                     (r_custom_interval recurring)) of
           Inl e \<Rightarrow> (db1, Inl e)
         | Inr next_date \<Rightarrow>
             create_instances_loop now rest
               (db1\<lparr>recurring_transactions :=
                      map (\<lambda>r. if sql_eq (r_id r) (r_id recurring)
                                then r\<lparr>r_next_due_date := Some next_date\<rparr> else r)
                          (recurring_transactions db1)\<rparr>)
               (created_count + 1))"

definition create_recurring_transaction_instances ::
  "database \<Rightarrow> datetime \<Rightarrow> database \<times> (py_error + nat)" where
  "create_recurring_transaction_instances db now =
     create_instances_loop now (check_recurring_transactions db now) db 0"





section \<open>The balance that the transactions of the store account for\<close>

text \<open>
  The signed balance effect of a transaction on an account, in the words of the
  specification: an \<open>Expense\<close> takes its amount from its account, an \<open>Income\<close> adds it,
  a \<open>Transfer\<close> takes it from the source account and adds it to the destination. The
  balance an account should show is its initial balance plus the effects of the
  transactions that exist.
\<close>

definition signed_effect :: "int option \<Rightarrow> string transaction \<Rightarrow> real" where
  "signed_effect account_id row =
     (if t_transaction_type row = ''Expense''
        then (if sql_eq (t_account_id row) account_id then - t_amount row else 0)
      else if t_transaction_type row = ''Income''
        then (if sql_eq (t_account_id row) account_id then t_amount row else 0)
      else if t_transaction_type row = ''Transfer''
        then (if sql_eq (t_account_id row) account_id then - t_amount row else 0)
             + (if sql_eq (t_to_account_id row) account_id then t_amount row else 0)
      else 0)"

definition expected_balance :: "database \<Rightarrow> account \<Rightarrow> real" where
  "expected_balance db a =
     a_initial_balance a + sum_list (map (signed_effect (a_id a)) (transactions db))"




section \<open>Example data\<close>

text \<open>Two accounts, A with 1000.00 and B with 200.00, and no other row.\<close>

definition account_A :: account where
  "account_A =
     \<lparr>a_id = Some 1, a_name = ''A'', a_account_type = ''Bank'', a_initial_balance = 1000,
      a_current_balance = 1000, a_currency = ''USD'', a_icon = ''wallet'', a_color = ''#2196F3'',
      a_is_credit_card = False, a_credit_limit = 0, a_due_date = None, a_interest_rate = 0,
      a_notes = []\<rparr>"

definition account_B :: account where
  "account_B =
     \<lparr>a_id = Some 2, a_name = ''B'', a_account_type = ''Cash'', a_initial_balance = 200,
      a_current_balance = 200, a_currency = ''USD'', a_icon = ''wallet'', a_color = ''#2196F3'',
      a_is_credit_card = False, a_credit_limit = 0, a_due_date = None, a_interest_rate = 0,
      a_notes = []\<rparr>"

definition two_accounts_db :: database where
  "two_accounts_db =
     \<lparr>transactions = [], transactions_seq = 0, accounts = [account_A, account_B],
      categories = [], budgets = [], recurring_transactions = []\<rparr>"

text \<open>A row of \<open>transactions\<close> and a row of \<open>budgets\<close> with the fields that the examples vary.\<close>

definition example_row ::
  "int \<Rightarrow> string \<Rightarrow> real \<Rightarrow> int option \<Rightarrow> int option \<Rightarrow> int option \<Rightarrow> string
   \<Rightarrow> string transaction" where
  "example_row i ty amt cat acc to_acc d =
     \<lparr>t_id = Some i, t_transaction_type = ty, t_amount = amt, t_category_id = cat,
      t_subcategory_id = None, t_account_id = acc, t_to_account_id = to_acc, t_date = d,
      t_time = ''09:30'', t_description = [], t_payment_method = [], t_tags = [],
      t_receipt_path = None, t_recurring_id = None\<rparr>"




text \<open>A clock value, and the stored transfer of 300.00 from A to B with the balances after it.\<close>

definition example_now :: datetime where
  "example_now =
     \<lparr>dt_year = 2024, dt_month = 1, dt_day = 1, dt_hour = 14, dt_minute = 30,
      dt_second = 5, dt_microsecond = 0\<rparr>"

definition transfer_db :: database where
  "transfer_db =
     \<lparr>transactions = [example_row 1 ''Transfer'' 300 None (Some 1) (Some 2) ''2024-01-01''],
      transactions_seq = 1,
      accounts = [account_A\<lparr>a_current_balance := 700\<rparr>, account_B\<lparr>a_current_balance := 500\<rparr>],
      categories = [], budgets = [], recurring_transactions = []\<rparr>"

text \<open>The transfer as a new transaction, an edit of the stored transfer, and an expense
  whose id is in no row.\<close>

definition transfer_A_to_B :: "date_field transaction" where
  "transfer_A_to_B =
     Transaction_init example_now None ''Transfer'' 300 None None (Some 1) (Some 2)
       (Some (DateStr ''2024-01-01'')) (Some ''09:30'') [] [] [] None None"



text \<open>A monthly pattern due on 2024-01-01, alone in its table.\<close>

definition monthly_pattern :: recurring_transaction where
  "monthly_pattern =
     \<lparr>r_id = Some 1, r_transaction_type = ''Expense'', r_amount = 50, r_category_id = Some 3,
      r_subcategory_id = None, r_account_id = Some 1, r_description = ''Monthly Subscription'',
      r_frequency = ''Monthly'', r_custom_interval = 1, r_start_date = Some ''2023-12-02'',
      r_end_date = None, r_next_due_date = Some ''2024-01-01'', r_auto_create = True,
      r_active = True\<rparr>"


text \<open>The monthly pattern beside an active pattern whose \<open>next_due_date\<close> is \<open>NULL\<close>.\<close>

definition dormant_pattern :: recurring_transaction where
  "dormant_pattern =
     \<lparr>r_id = Some 2, r_transaction_type = ''Income'', r_amount = 3000, r_category_id = Some 11,
      r_subcategory_id = None, r_account_id = Some 1, r_description = ''Monthly Salary'',
      r_frequency = ''Monthly'', r_custom_interval = 1, r_start_date = None,
      r_end_date = None, r_next_due_date = None, r_auto_create = True, r_active = True\<rparr>"

definition dormant_db :: database where
  "dormant_db =
     \<lparr>transactions = [], transactions_seq = 0, accounts = [account_A, account_B],
      categories = [], budgets = [],
      recurring_transactions = [monthly_pattern, dormant_pattern]\<rparr>"




section \<open>Properties of the calendar\<close>










lemma days_in_december: "days_in_month y 12 = 31"
  by (simp add: days_in_month_def)


lemma days_in_month_ge: "28 \<le> days_in_month y m"
  by (simp add: days_in_month_def)


text \<open>Shifting a date by days keeps it a date, and keeps midnight.\<close>

lemma next_day_ok:
  assumes "date_ok d"
  shows "date_ok (next_day d)"
proof -
  consider (a) "dt_day d < days_in_month (dt_year d) (dt_month d)"
    | (b) "\<not> dt_day d < days_in_month (dt_year d) (dt_month d)" "dt_month d < 12"
    | (c) "\<not> dt_day d < days_in_month (dt_year d) (dt_month d)" "\<not> dt_month d < 12"
    by blast
  then show ?thesis
  proof cases
    case a
    with assms show ?thesis
      by (simp add: date_ok_def next_day_def)
  next
    case b
    with assms days_in_month_ge [of "dt_year d" "dt_month d + 1"] show ?thesis
      by (simp add: date_ok_def next_day_def)
  next
    case c
    with assms days_in_month_ge [of "dt_year d + 1" 1] show ?thesis
      by (simp add: date_ok_def next_day_def)
  qed
qed




lemma funpow_invariant: "(\<And>x. P x \<Longrightarrow> P (f x)) \<Longrightarrow> P x \<Longrightarrow> P ((f ^^ n) x)"
  by (induction n) auto




text \<open>The day before the day after is the day itself, so shifting back undoes shifting.\<close>

lemma prev_day_next_day:
  assumes "date_ok d"
  shows "prev_day (next_day d) = d"
proof -
  consider (a) "dt_day d < days_in_month (dt_year d) (dt_month d)"
    | (b) "\<not> dt_day d < days_in_month (dt_year d) (dt_month d)" "dt_month d < 12"
    | (c) "\<not> dt_day d < days_in_month (dt_year d) (dt_month d)" "\<not> dt_month d < 12"
    by blast
  then show ?thesis
  proof cases
    case a
    with assms show ?thesis
      by (simp add: date_ok_def next_day_def prev_day_def)
  next
    case b
    with assms have "dt_day d = days_in_month (dt_year d) (dt_month d)"
      by (simp add: date_ok_def)
    with b assms show ?thesis
      by (simp add: date_ok_def next_day_def prev_day_def)
  next
    case c
    with assms have m: "dt_month d = 12"
      by (simp add: date_ok_def)
    with c assms have "dt_day d = 31"
      by (simp add: date_ok_def days_in_december)
    with c m show ?thesis
      by (simp add: next_day_def prev_day_def)
  qed
qed

lemma shift_days_back:
  assumes "date_ok d" "0 \<le> k"
  shows "shift_days (shift_days d k) (- k) = d"
proof -
  have "(prev_day ^^ n) ((next_day ^^ n) d) = d" for n
  proof (induction n)
    case 0
    show ?case by simp
  next
    case (Suc n)
    have ok: "date_ok ((next_day ^^ n) d)"
      using assms(1) by (simp add: funpow_invariant next_day_ok)
    have "(prev_day ^^ Suc n) ((next_day ^^ Suc n) d)
            = (prev_day ^^ n) (prev_day (next_day ((next_day ^^ n) d)))"
      by (simp add: funpow_swap1)
    also have "\<dots> = (prev_day ^^ n) ((next_day ^^ n) d)"
      by (simp only: prev_day_next_day [OF ok])
    finally show ?case
      using Suc.IH by simp
  qed
  from this [of "nat k"] assms(2) show ?thesis
    by (cases "k = 0") (simp_all add: shift_days_def)
qed







section \<open>Properties of the store\<close>

















text \<open>
  C1 does not hold of the code. With A at 1000.00 and B at 200.00, adding a transfer of
  300.00 from A to B gives 700.00 and 500.00, as the transfer accounts for. Deleting the
  transfer removes its row and leaves 700.00 and 500.00, where the initial balances plus
  the effects of the transactions that still exist are 1000.00 and 200.00.
\<close>

theorem transfer_delete_breaks_balance:
  "add_transaction two_accounts_db transfer_A_to_B = (transfer_db, 1) \<and>
   map a_current_balance (accounts transfer_db) = [700, 500] \<and>
   map (expected_balance transfer_db) (accounts transfer_db) = [700, 500] \<and>
   transactions (delete_transaction transfer_db (Some 1)) = [] \<and>
   map a_current_balance (accounts (delete_transaction transfer_db (Some 1))) = [700, 500] \<and>
   map (expected_balance (delete_transaction transfer_db (Some 1)))
       (accounts (delete_transaction transfer_db (Some 1))) = [1000, 200]"
  by (simp add: add_transaction_def two_accounts_db_def transfer_A_to_B_def Transaction_init_def
      transfer_db_def Let_def lastrowid_def truthy_def update_account_balance_def sql_eq_def
      account_A_def account_B_def example_row_def date_column_def delete_transaction_def
      get_transaction_by_id_def expected_balance_def signed_effect_def)

section \<open>Properties of the recurrence engine\<close>








lemma add_transaction_appends:
  "\<exists>row. transactions (fst (add_transaction db t)) = transactions db @ [row]
         \<and> t_recurring_id row = t_recurring_id t"
  by (simp add: add_transaction_def Let_def update_account_balance_def)

lemma add_transaction_recurring:
  "recurring_transactions (fst (add_transaction db t)) = recurring_transactions db"
  by (simp add: add_transaction_def Let_def update_account_balance_def)


lemma check_recurring_loop_filter:
  "check_recurring_loop today rs acc
     = acc @ filter (\<lambda>r. (case r_next_due_date r of None \<Rightarrow> False | Some s \<Rightarrow> s \<noteq> [] \<and> s \<le> today)
                          \<and> r_active r \<and> r_auto_create r) rs"
  by (induction rs arbitrary: acc) auto

lemma check_recurring_transactions_set:
  "r \<in> set (check_recurring_transactions db now) \<Longrightarrow>
     r \<in> set (recurring_transactions db) \<and> r_next_due_date r \<noteq> None
     \<and> r_active r \<and> r_auto_create r"
  by (auto simp: check_recurring_transactions_def get_recurring_transactions_def Let_def
        check_recurring_loop_filter split: option.splits)

lemma create_instances_loop_transactions:
  "create_instances_loop now rs db n = (db', res) \<Longrightarrow>
     \<exists>new. transactions db' = transactions db @ new
            \<and> (\<forall>t \<in> set new. \<exists>r \<in> set rs. t_recurring_id t = r_id r)"
proof (induction rs arbitrary: db n)
  case Nil
  then show ?case by simp
next
  case (Cons r rs)
  let ?tx = "Transaction_init now None (r_transaction_type r) (r_amount r)
              (r_category_id r) (r_subcategory_id r) (r_account_id r)
              None (Some (DateTime now)) None (r_description r) [] [] None (r_id r)"
  let ?db1 = "fst (add_transaction db ?tx)"
  obtain row where row: "transactions ?db1 = transactions db @ [row]"
      "t_recurring_id row = r_id r"
    using add_transaction_appends [of db ?tx] by (auto simp: Transaction_init_def)
  show ?case
  proof (cases "case r_next_due_date r of None \<Rightarrow> Inl TypeError
               | Some current_date \<Rightarrow> calculate_next_due_date current_date (r_frequency r)
                     (r_custom_interval r)")
    case (Inl e)
    with Cons.prems have "db' = ?db1"
      by (simp add: Let_def)
    with row show ?thesis by auto
  next
    case (Inr next_date)
    let ?db2 = "?db1\<lparr>recurring_transactions :=
                      map (\<lambda>x. if sql_eq (r_id x) (r_id r)
                                then x\<lparr>r_next_due_date := Some next_date\<rparr> else x)
                          (recurring_transactions ?db1)\<rparr>"
    from Inr Cons.prems have "create_instances_loop now rs ?db2 (n + 1) = (db', res)"
      by (simp add: Let_def)
    from Cons.IH [OF this] obtain new where new: "transactions db' = transactions ?db2 @ new"
        "\<forall>t \<in> set new. \<exists>r \<in> set rs. t_recurring_id t = r_id r"
      by blast
    have "transactions db' = transactions db @ (row # new)"
      using new(1) row(1) by simp
    moreover have "\<forall>t \<in> set (row # new). \<exists>x \<in> set (r # rs). t_recurring_id t = r_id x"
      using new(2) row(2) by auto
    ultimately show ?thesis by blast
  qed
qed

lemma create_instances_loop_keeps:
  "create_instances_loop now rs db n = (db', res) \<Longrightarrow>
   p \<in> set (recurring_transactions db) \<Longrightarrow>
   \<forall>r \<in> set rs. \<not> sql_eq (r_id p) (r_id r) \<Longrightarrow>
     p \<in> set (recurring_transactions db')"
proof (induction rs arbitrary: db n)
  case Nil
  then show ?case by simp
next
  case (Cons r rs)
  let ?tx = "Transaction_init now None (r_transaction_type r) (r_amount r)
              (r_category_id r) (r_subcategory_id r) (r_account_id r)
              None (Some (DateTime now)) None (r_description r) [] [] None (r_id r)"
  let ?db1 = "fst (add_transaction db ?tx)"
  have in1: "p \<in> set (recurring_transactions ?db1)"
    using Cons.prems(2) by (simp add: add_transaction_recurring)
  show ?case
  proof (cases "case r_next_due_date r of None \<Rightarrow> Inl TypeError
               | Some current_date \<Rightarrow> calculate_next_due_date current_date (r_frequency r)
                     (r_custom_interval r)")
    case (Inl e)
    with Cons.prems(1) have "db' = ?db1"
      by (simp add: Let_def)
    with in1 show ?thesis by simp
  next
    case (Inr next_date)
    let ?db2 = "?db1\<lparr>recurring_transactions :=
                      map (\<lambda>x. if sql_eq (r_id x) (r_id r)
                                then x\<lparr>r_next_due_date := Some next_date\<rparr> else x)
                          (recurring_transactions ?db1)\<rparr>"
    from Inr Cons.prems(1) have run: "create_instances_loop now rs ?db2 (n + 1) = (db', res)"
      by (simp add: Let_def)
    have "\<not> sql_eq (r_id p) (r_id r)"
      using Cons.prems(3) by simp
    then have "p \<in> set (recurring_transactions ?db2)"
      using in1 by (auto simp: image_iff intro!: bexI [of _ p])
    moreover have "\<forall>x \<in> set rs. \<not> sql_eq (r_id p) (r_id x)"
      using Cons.prems(3) by simp
    ultimately show ?thesis
      using Cons.IH [OF run] by blast
  qed
qed









lemma distinct_map_neq:
  "distinct (map f xs) \<Longrightarrow> x \<in> set xs \<Longrightarrow> y \<in> set xs \<Longrightarrow> x \<noteq> y \<Longrightarrow> f x \<noteq> f y"
  by (auto simp: distinct_map inj_on_def)

text \<open>
  C10. A pattern whose \<open>next_due_date\<close> is \<open>NULL\<close> is in no result of
  \<open>check_recurring_transactions\<close>, whatever the clock and whatever its \<open>active\<close> and
  \<open>auto_create\<close> flags: the comparison of dates is behind the test of the date itself,
  and the check raises nothing. Materialization leaves the row of such a pattern as it
  is and appends no transaction whose \<open>recurring_id\<close> is its id (the ids of the patterns
  being distinct, as a primary key is).
\<close>

theorem null_due_date_never_due:
  "r_next_due_date p = None \<Longrightarrow>
     p \<notin> set (check_recurring_transactions db now) \<and>
     (create_recurring_transaction_instances db now = (db', res)
        \<and> p \<in> set (recurring_transactions db)
        \<and> distinct (map r_id (recurring_transactions db))
      \<longrightarrow> p \<in> set (recurring_transactions db')
          \<and> (\<exists>new. transactions db' = transactions db @ new
                     \<and> (\<forall>t \<in> set new. t_recurring_id t \<noteq> r_id p)))"
proof (intro conjI impI)
  assume null: "r_next_due_date p = None"
  show notdue: "p \<notin> set (check_recurring_transactions db now)"
    using check_recurring_transactions_set [of p db now] null by blast
  assume "create_recurring_transaction_instances db now = (db', res)
        \<and> p \<in> set (recurring_transactions db)
        \<and> distinct (map r_id (recurring_transactions db))"
  then have run: "create_instances_loop now (check_recurring_transactions db now) db 0 = (db', res)"
    and mem: "p \<in> set (recurring_transactions db)"
    and dist: "distinct (map r_id (recurring_transactions db))"
    by (simp_all add: create_recurring_transaction_instances_def)
  have other: "r_id r \<noteq> r_id p" if "r \<in> set (check_recurring_transactions db now)" for r
  proof -
    from that have "r \<in> set (recurring_transactions db)" and "r \<noteq> p"
      using check_recurring_transactions_set [of r db now] null by auto
    with dist mem show ?thesis
      by (blast dest: distinct_map_neq)
  qed
  then have "\<forall>r \<in> set (check_recurring_transactions db now). \<not> sql_eq (r_id p) (r_id r)"
    by (auto simp: sql_eq_def)
  with run mem show "p \<in> set (recurring_transactions db')"
    by (rule create_instances_loop_keeps)
  from create_instances_loop_transactions [OF run] other
  show "\<exists>new. transactions db' = transactions db @ new
              \<and> (\<forall>t \<in> set new. t_recurring_id t \<noteq> r_id p)"
    by metis
qed

theorem null_due_date_never_due_witness:
  "dormant_pattern \<notin> set (check_recurring_transactions dormant_db example_now) \<and>
   dormant_pattern
     \<in> set (recurring_transactions
              (fst (create_recurring_transaction_instances dormant_db example_now)))"
proof -
  have null: "r_next_due_date dormant_pattern = None"
    by (simp add: dormant_pattern_def)
  obtain db' res where run:
    "create_recurring_transaction_instances dormant_db example_now = (db', res)"
    by (cases "create_recurring_transaction_instances dormant_db example_now")
  have mem: "dormant_pattern \<in> set (recurring_transactions dormant_db)"
    by (simp add: dormant_db_def)
  have dist: "distinct (map r_id (recurring_transactions dormant_db))"
    by (simp add: dormant_db_def dormant_pattern_def monthly_pattern_def)
  note r = null_due_date_never_due [OF null, of dormant_db example_now db' res]
  from r have a: "dormant_pattern \<notin> set (check_recurring_transactions dormant_db example_now)"
    by blast
  from r run mem dist have b: "dormant_pattern \<in> set (recurring_transactions db')"
    by blast
  have f: "fst (create_recurring_transaction_instances dormant_db example_now) = db'"
    by (simp add: run)
  show ?thesis
    unfolding f using a b by blast
qed

section \<open>Properties of the reminders\<close>





section \<open>Properties of the entity dictionaries\<close>

lemma as_int_opt_py [simp]: "as_int_opt (py_int_opt x) = Some x"
  by (cases x) (simp_all add: as_int_opt_def py_int_opt_def)

lemma as_str_opt_py [simp]: "as_str_opt (py_str_opt x) = Some x"
  by (cases x) (simp_all add: as_str_opt_def py_str_opt_def)

lemma as_plain [simp]:
  "as_str (PyStr s) = Some s" "as_float (PyFloat x) = Some x" "as_bool (PyBool b) = Some b"
  "as_int (PyInt i) = Some i" "as_str_opt (PyStr s) = Some (Some s)"
  "as_date_opt (PyDateTime d) = Some (Some (DateTime d))"
  by (simp_all add: as_str_def as_float_def as_bool_def as_int_def as_str_opt_def as_date_opt_def)















end
